theory Spec2Isabelle
  imports Main
begin

section \<open>Python values used by the conversation manager\<close>

text \<open>
  The module \<^verbatim>\<open>src/utils/conversation_manager.py\<close> works on Python strings, lists and
  langchain messages. A Python \<^verbatim>\<open>str\<close> is modelled as \<^typ>\<open>string\<close>: the code only
  measures, slices and concatenates strings, so the character type does not matter.
  Integers are unbounded, hence \<^typ>\<open>int\<close>.
\<close>

datatype error = TypeError

text \<open>
  Python slices with one bound. A negative bound counts from the end and a bound beyond
  either end is clamped; \<^verbatim>\<open>xs[-0:]\<close> is \<^verbatim>\<open>xs[0:]\<close>, the whole sequence.
\<close>

definition slice_to :: "int \<Rightarrow> 'a list \<Rightarrow> 'a list" where
  \<comment> \<open>\<^verbatim>\<open>xs[:n]\<close>\<close>
  "slice_to n xs =
     (if 0 \<le> n then take (nat n) xs else take (length xs - nat (- n)) xs)"

definition slice_from :: "int \<Rightarrow> 'a list \<Rightarrow> 'a list" where
  \<comment> \<open>\<^verbatim>\<open>xs[n:]\<close>\<close>
  "slice_from n xs =
     (if 0 \<le> n then drop (nat n) xs else drop (length xs - nat (- n)) xs)"

fun join :: "string \<Rightarrow> string list \<Rightarrow> string" where
  \<comment> \<open>\<^verbatim>\<open>sep.join(parts)\<close>\<close>
  "join sep [] = []"
| "join sep [x] = x"
| "join sep (x # y # ys) = x @ sep @ join sep (y # ys)"

fun contains :: "string \<Rightarrow> string \<Rightarrow> bool" where
  \<comment> \<open>\<^verbatim>\<open>needle in hay\<close> on strings\<close>
  "contains needle [] = (needle = [])"
| "contains needle (c # cs) = (take (length needle) (c # cs) = needle \<or> contains needle cs)"

definition startswith :: "string \<Rightarrow> string \<Rightarrow> bool" where
  "startswith s p = (take (length p) s = p)"

definition endswith :: "string \<Rightarrow> string \<Rightarrow> bool" where
  "endswith s p = (length p \<le> length s \<and> drop (length s - length p) s = p)"

fun split_lines :: "string \<Rightarrow> string list" where
  \<comment> \<open>\<^verbatim>\<open>s.split("\n")\<close>\<close>
  "split_lines [] = [[]]"
| "split_lines (c # cs) =
     (if c = CHR ''\<newline>'' then [] # split_lines cs
      else (case split_lines cs of
              [] \<Rightarrow> [[c]]
            | l # ls \<Rightarrow> (c # l) # ls))"

section \<open>Messages\<close>

text \<open>
  \<^verbatim>\<open>BaseMessage\<close> comes from langchain. The code tells its subclasses apart with
  \<^verbatim>\<open>isinstance\<close>; every other subclass (tool, function, chat messages) is \<open>OtherMessage\<close>.
  The payload \<^verbatim>\<open>content\<close> is a \<^verbatim>\<open>str\<close> or a list of content blocks, whose element
  type \<^typ>\<open>'b\<close> is left open. \<^verbatim>\<open>BaseMessage\<close> declares \<^verbatim>\<open>name: Optional[str] = None\<close>,
  so every message has the attribute \<^verbatim>\<open>name\<close>, holding \<^verbatim>\<open>None\<close> when no display name
  was given. The remaining fields of a message are not read by this module.
\<close>

datatype kind = SystemMessage | HumanMessage | AIMessage | OtherMessage

datatype 'b content_value = Text string | Blocks "'b list"

record 'b message =
  kind :: kind
  content :: "'b content_value"
  name :: "string option"

definition getattr_name :: "'b message \<Rightarrow> string option \<Rightarrow> string option" where
  \<comment> \<open>\<^verbatim>\<open>getattr(message, 'name', default)\<close>: the attribute exists on every message, so the
      default is never taken and the attribute's value (possibly \<^verbatim>\<open>None\<close>) is returned.\<close>
  "getattr_name msg dflt = name msg"

definition format_value :: "string option \<Rightarrow> string" where
  \<comment> \<open>how an f-string renders a value that is \<^verbatim>\<open>None\<close> or a \<^verbatim>\<open>str\<close>\<close>
  "format_value v = (case v of None \<Rightarrow> ''None'' | Some s \<Rightarrow> s)"

section \<open>Content truncation\<close>

definition MAX_CONTENT_LENGTH :: int where "MAX_CONTENT_LENGTH = 900000"
definition MAX_MESSAGES_BEFORE_SUMMARY :: int where "MAX_MESSAGES_BEFORE_SUMMARY = 30"
definition SUMMARY_PRESERVE_RECENT :: int where "SUMMARY_PRESERVE_RECENT = 5"

definition truncation_notice :: string where
  "truncation_notice = ''\<newline>...Content truncated...\<newline>''"

definition truncate_content :: "string \<Rightarrow> int \<Rightarrow> string" where
  "truncate_content content' max_length =
     (if int (length content') \<le> max_length then content'
      else let half_length = max_length div 2
           in slice_to half_length content' @ truncation_notice
              @ slice_from (- half_length) content')"

section \<open>The conversation manager\<close>

record 'b manager =
  max_messages :: int
  max_content_length :: int
  preserve_recent :: int
  messages :: "'b message list"
  summary :: "string option"

definition ConversationManager :: "int \<Rightarrow> int \<Rightarrow> int \<Rightarrow> 'b manager" where
  \<comment> \<open>\<^verbatim>\<open>__init__\<close>\<close>
  "ConversationManager max_messages' max_content_length' preserve_recent' =
     \<lparr>max_messages = max_messages', max_content_length = max_content_length',
      preserve_recent = preserve_recent', messages = [], summary = None\<rparr>"

definition create_conversation_manager :: "int \<Rightarrow> int \<Rightarrow> int \<Rightarrow> 'b manager" where
  "create_conversation_manager max_messages' max_content_length' preserve_recent' =
     ConversationManager max_messages' max_content_length' preserve_recent'"

definition summarized_notice :: string where
  "summarized_notice = ''\<newline>\<newline>...Content summarized...\<newline>\<newline>''"

definition create_summary_for_content :: "'b manager \<Rightarrow> string \<Rightarrow> string" where
  "create_summary_for_content self content' =
     (if length content' \<le> 500 then content'
      else let beginning = slice_to 200 content';
               ending = slice_from (- 200) content'
           in beginning @ summarized_notice @ ending)"

text \<open>
  The body of the fold's loop. The excerpt
  \<^verbatim>\<open>msg.content[:200] + "..." if len(msg.content) > 200 else msg.content\<close>
  raises \<^verbatim>\<open>TypeError\<close> on a list of more than 200 blocks (a list and a \<^verbatim>\<open>str\<close> do not
  concatenate); a shorter list is rendered by the f-string, which is the parameter \<open>fmt\<close>.
\<close>

definition excerpt :: "('b list \<Rightarrow> string) \<Rightarrow> 'b content_value \<Rightarrow> error + string" where
  "excerpt fmt c =
     (case c of
        Text s \<Rightarrow> Inr (if length s > 200 then slice_to 200 s @ ''...'' else s)
      | Blocks bs \<Rightarrow> (if length bs > 200 then Inl TypeError else Inr (fmt bs)))"

definition summary_line :: "('b list \<Rightarrow> string) \<Rightarrow> 'b message \<Rightarrow> error + string option" where
  "summary_line fmt msg =
     (if kind msg = SystemMessage then Inr None
      else if kind msg = HumanMessage then
        (case excerpt fmt (content msg) of
           Inl e \<Rightarrow> Inl e
         | Inr c \<Rightarrow> Inr (Some (''User: '' @ c)))
      else if kind msg = AIMessage then
        (case excerpt fmt (content msg) of
           Inl e \<Rightarrow> Inl e
         | Inr c \<Rightarrow>
             let agent_name = getattr_name msg (Some ''Assistant'')
             in Inr (Some (format_value agent_name @ '': '' @ c)))
      else Inr None)"

fun summarize_loop ::
  "('b list \<Rightarrow> string) \<Rightarrow> string list \<Rightarrow> 'b message list \<Rightarrow> error + string list" where
  "summarize_loop fmt summary_parts [] = Inr summary_parts"
| "summarize_loop fmt summary_parts (msg # rest) =
     (case summary_line fmt msg of
        Inl e \<Rightarrow> Inl e
      | Inr None \<Rightarrow> summarize_loop fmt summary_parts rest
      | Inr (Some line) \<Rightarrow> summarize_loop fmt (summary_parts @ [line]) rest)"

definition truthy :: "string option \<Rightarrow> bool" where
  \<comment> \<open>\<^verbatim>\<open>if self.summary:\<close> holds for a non-empty string only\<close>
  "truthy v = (case v of None \<Rightarrow> False | Some s \<Rightarrow> s \<noteq> [])"

definition create_summary :: "('b list \<Rightarrow> string) \<Rightarrow> 'b manager \<Rightarrow> error + 'b manager" where
  "create_summary fmt self =
     (if int (length (messages self)) \<le> preserve_recent self then Inr self
      else
        let messages_to_summarize = slice_to (- preserve_recent self) (messages self);
            recent_messages = slice_from (- preserve_recent self) (messages self);
            summary_parts =
              (if truthy (summary self)
               then [''Previous conversation summary: '' @ the (summary self)] else [])
        in case summarize_loop fmt summary_parts messages_to_summarize of
             Inl e \<Rightarrow> Inl e
           | Inr parts \<Rightarrow>
               Inr (self\<lparr>summary := (if parts \<noteq> [] then Some (join ''\<newline>'' parts) else None),
                         messages := recent_messages\<rparr>))"

definition add_message ::
  "('b list \<Rightarrow> string) \<Rightarrow> 'b manager \<Rightarrow> 'b message \<Rightarrow> error + 'b manager" where
  "add_message fmt self message =
     (let message1 =
            (case content message of
               Text s \<Rightarrow>
                 if int (length s) > max_content_length self then
                   let truncated_content = create_summary_for_content self s
                   in if kind message = AIMessage then
                        \<lparr>kind = AIMessage, content = Text truncated_content,
                         name = getattr_name message None\<rparr>
                      else if kind message = HumanMessage then
                        \<lparr>kind = HumanMessage, content = Text truncated_content,
                         name = getattr_name message None\<rparr>
                      else if kind message = SystemMessage then
                        \<lparr>kind = SystemMessage, content = Text truncated_content,
                         name = None\<rparr>
                      else message
                 else message
             | Blocks bs \<Rightarrow> message)
      in case (if int (length (messages self)) \<ge> max_messages self
               then create_summary fmt self else Inr self) of
           Inl e \<Rightarrow> Inl e
         | Inr self1 \<Rightarrow>
             let self2 = self1\<lparr>messages := messages self1 @ [message1]\<rparr>
             in if int (length (messages self2)) > preserve_recent self2
                then create_summary fmt self2 else Inr self2)"

text \<open>
  The accessors are methods of the same object, so they return their result together with
  the manager they leave behind. \<^verbatim>\<open>list.copy()\<close> gives the caller a list of its own.
\<close>

definition get_messages :: "'b manager \<Rightarrow> bool \<Rightarrow> 'b message list \<times> 'b manager" where
  "get_messages self summary_mode =
     (if \<not> summary_mode \<or> \<not> truthy (summary self) then (messages self, self)
      else
        let summary_message =
              \<lparr>kind = SystemMessage,
               content = Text (''Conversation Summary:\<newline>'' @ the (summary self)),
               name = None\<rparr>
        in ([summary_message] @ messages self, self))"

definition get_recent_messages :: "'b manager \<Rightarrow> int \<Rightarrow> 'b message list \<times> 'b manager" where
  "get_recent_messages self count =
     (if count > 0 then (slice_from (- count) (messages self), self) else ([], self))"

definition clear :: "'b manager \<Rightarrow> 'b manager" where
  "clear self = self\<lparr>messages := [], summary := None\<rparr>"

record stats =
  total_messages :: int
  has_summary :: bool
  summary_length :: int
  total_content_length :: int
  max_messages_threshold :: int
  preserve_recent_count :: int

definition get_conversation_stats :: "'b manager \<Rightarrow> stats \<times> 'b manager" where
  "get_conversation_stats self =
     (let total_content_length' =
            sum_list (map (\<lambda>msg. case content msg of
                                   Text s \<Rightarrow> int (length s)
                                 | Blocks bs \<Rightarrow> 0) (messages self))
      in (\<lparr>total_messages = int (length (messages self)),
           has_summary = (summary self \<noteq> None),
           summary_length =
             (if truthy (summary self) then int (length (the (summary self))) else 0),
           total_content_length = total_content_length',
           max_messages_threshold = max_messages self,
           preserve_recent_count = preserve_recent self\<rparr>, self))"

section \<open>Messages as the callers build them\<close>

text \<open>
  \<^verbatim>\<open>HumanMessage(content=s)\<close>, \<^verbatim>\<open>AIMessage(content=s)\<close> and \<^verbatim>\<open>SystemMessage(content=s)\<close>:
  a message built without a display name holds \<^verbatim>\<open>None\<close> in \<^verbatim>\<open>name\<close>.
\<close>

definition human_message :: "string \<Rightarrow> 'b message" where
  "human_message s = \<lparr>kind = HumanMessage, content = Text s, name = None\<rparr>"
definition ai_message :: "string \<Rightarrow> 'b message" where
  "ai_message s = \<lparr>kind = AIMessage, content = Text s, name = None\<rparr>"
definition system_message :: "string \<Rightarrow> 'b message" where
  "system_message s = \<lparr>kind = SystemMessage, content = Text s, name = None\<rparr>"

text \<open>
  The loop of the tests and scenarios, \<^verbatim>\<open>for m in ms: manager.add_message(m)\<close>; an
  exception ends it.
\<close>

fun add_messages ::
  "('b list \<Rightarrow> string) \<Rightarrow> 'b manager \<Rightarrow> 'b message list \<Rightarrow> error + 'b manager" where
  "add_messages fmt self [] = Inr self"
| "add_messages fmt self (message # rest) =
     (case add_message fmt self message of
        Inl e \<Rightarrow> Inl e
      | Inr self' \<Rightarrow> add_messages fmt self' rest)"

text \<open>
  The message that the first step of \<open>add_message\<close> hands on to be appended, as a
  function of its own; \<open>add_message_steps\<close> below shows that \<open>add_message\<close> computes it.
\<close>

definition ingested :: "'b manager \<Rightarrow> 'b message \<Rightarrow> 'b message" where
  "ingested self message =
     (case content message of
        Text s \<Rightarrow>
          if int (length s) > max_content_length self then
            (if kind message = AIMessage then
               \<lparr>kind = AIMessage, content = Text (create_summary_for_content self s),
                name = getattr_name message None\<rparr>
             else if kind message = HumanMessage then
               \<lparr>kind = HumanMessage, content = Text (create_summary_for_content self s),
                name = getattr_name message None\<rparr>
             else if kind message = SystemMessage then
               \<lparr>kind = SystemMessage, content = Text (create_summary_for_content self s),
                name = None\<rparr>
             else message)
          else message
      | Blocks bs \<Rightarrow> message)"

section \<open>Slices\<close>

lemma slice_to_nonneg: "0 \<le> n \<Longrightarrow> slice_to n xs = take (nat n) xs"
  by (simp add: slice_to_def)

lemma slice_from_neg: "0 < n \<Longrightarrow> slice_from (- n) xs = drop (length xs - nat n) xs"
  by (simp add: slice_from_def)

lemma slice_to_neg: "0 < n \<Longrightarrow> slice_to (- n) xs = take (length xs - nat n) xs"
  by (simp add: slice_to_def)

lemma slice_split: "slice_to (- n) xs @ slice_from (- n) xs = xs"
  by (simp add: slice_to_def slice_from_def)

lemma length_slice_from_neg:
  "0 < n \<Longrightarrow> n \<le> int (length xs) \<Longrightarrow> int (length (slice_from (- n) xs)) = n"
  by (simp add: slice_from_def)

section \<open>Substrings\<close>

lemma contains_append_right: "contains n ys \<Longrightarrow> contains n (xs @ ys)"
  by (induction xs) auto

lemma contains_prefix: "contains n (n @ ys)"
proof (cases "n @ ys")
  case Nil
  then show ?thesis by simp
next
  case (Cons a list)
  have "take (length n) (n @ ys) = n" by simp
  with Cons show ?thesis by (metis contains.simps(2))
qed

lemma contains_mid: "contains n (xs @ n @ ys)"
  by (simp add: contains_append_right contains_prefix)

lemma contains_summarized: "contains ''Content summarized'' (xs @ summarized_notice @ ys)"
proof -
  have "xs @ summarized_notice @ ys
        = (xs @ ''\<newline>\<newline>...'') @ ''Content summarized'' @ (''...\<newline>\<newline>'' @ ys)"
    by (simp add: summarized_notice_def)
  then show ?thesis by (simp only: contains_mid)
qed

lemma contains_set: "contains n h \<Longrightarrow> set n \<subseteq> set h"
proof (induction h)
  case Nil
  then show ?case by simp
next
  case (Cons c cs)
  from Cons.prems have "take (length n) (c # cs) = n \<or> contains n cs" by simp
  then show ?case
  proof
    assume "take (length n) (c # cs) = n"
    then have "set n = set (take (length n) (c # cs))" by simp
    then show ?thesis using set_take_subset [of "length n" "c # cs"] by simp
  next
    assume "contains n cs"
    with Cons.IH show ?thesis by auto
  qed
qed

lemma length_summarized_notice: "length summarized_notice = 28"
  by (simp add: summarized_notice_def)

lemmas run_simps = add_message_def create_summary_def Let_def slice_to_def slice_from_def
  summary_line_def excerpt_def truthy_def getattr_name_def format_value_def
  ConversationManager_def human_message_def ai_message_def system_message_def

section \<open>Content truncation and summarization\<close>

text \<open>
  C6, as stated, fails twice. A string that already consists of a prefix, the truncation
  notice and a suffix of the right lengths is returned unchanged although it is longer
  than \<open>max_length\<close>, so "unchanged" does not imply "short enough". And for \<open>max_length\<close>
  0 or 1 the half length is 0 and \<^verbatim>\<open>content[-0:]\<close> is the whole string, not its last 0
  characters.
\<close>

theorem truncate_content_iff_counterexample:
  "truncate_content ''a\<newline>...Content truncated...\<newline>b'' 2
     = ''a\<newline>...Content truncated...\<newline>b''
   \<and> \<not> int (length ''a\<newline>...Content truncated...\<newline>b'') \<le> 2
   \<and> \<not> int (length ''ab'') \<le> 0
   \<and> truncate_content ''ab'' 0 = ''\<newline>...Content truncated...\<newline>ab''
   \<and> truncate_content ''ab'' 0
       \<noteq> take (nat (0 div 2)) ''ab'' @ ''\<newline>...Content truncated...\<newline>''
         @ drop (length ''ab'' - nat (0 div 2)) ''ab''"
  by (simp add: truncate_content_def truncation_notice_def slice_to_def slice_from_def)

text \<open>
  C6 (amended): for every string \<open>s\<close> and every \<open>max_length \<ge> 2\<close>, a string of at most
  \<open>max_length\<close> characters is returned unchanged, and a longer one becomes its first
  \<open>max_length // 2\<close> characters, the truncation notice and its last \<open>max_length // 2\<close>
  characters.
\<close>

theorem truncate_content_halves:
  assumes "2 \<le> max_length"
  shows "(int (length s) \<le> max_length \<longrightarrow> truncate_content s max_length = s) \<and>
         (max_length < int (length s) \<longrightarrow>
            truncate_content s max_length
              = take (nat (max_length div 2)) s @ truncation_notice
                @ drop (length s - nat (max_length div 2)) s
            \<and> length (take (nat (max_length div 2)) s) = nat (max_length div 2)
            \<and> length (drop (length s - nat (max_length div 2)) s) = nat (max_length div 2))"
proof (intro conjI impI)
  assume "int (length s) \<le> max_length"
  then show "truncate_content s max_length = s" by (simp add: truncate_content_def)
next
  assume long: "max_length < int (length s)"
  from assms have half: "0 < max_length div 2" by simp
  from long half assms show "truncate_content s max_length
              = take (nat (max_length div 2)) s @ truncation_notice
                @ drop (length s - nat (max_length div 2)) s"
    by (simp add: truncate_content_def Let_def slice_to_def slice_from_def)
  from long assms have le: "nat (max_length div 2) \<le> length s" by linarith
  then show "length (take (nat (max_length div 2)) s) = nat (max_length div 2)" by simp
  from le show "length (drop (length s - nat (max_length div 2)) s) = nat (max_length div 2)"
    by simp
qed

theorem truncate_content_halves_witness:
  "(2::int) \<le> 4 \<and> 4 < int (length ''abcdefgh'')
   \<and> truncate_content ''abcdefgh'' 4 = ''ab'' @ truncation_notice @ ''gh''
   \<and> int (length ''abc'') \<le> 4 \<and> truncate_content ''abc'' 4 = ''abc''"
  using truncate_content_halves [of 4 "''abcdefgh''"] truncate_content_halves [of 4 "''abc''"]
  by simp

text \<open>
  C7: ingest-time summarization returns a string of at most 500 characters unchanged; a
  longer one becomes \<^verbatim>\<open>s[:200]\<close>, the "Content summarized" notice and \<^verbatim>\<open>s[-200:]\<close>.
  The manager, and so its \<open>max_content_length\<close>, has no influence on the result.
\<close>

theorem create_summary_for_content_window:
  "(length s \<le> 500 \<longrightarrow> create_summary_for_content self s = s) \<and>
   (500 < length s \<longrightarrow>
      create_summary_for_content self s
        = take 200 s @ summarized_notice @ drop (length s - 200) s
      \<and> startswith (create_summary_for_content self s) (slice_to 200 s)
      \<and> endswith (create_summary_for_content self s) (slice_from (- 200) s)
      \<and> contains ''Content summarized'' (create_summary_for_content self s))
   \<and> create_summary_for_content self s = create_summary_for_content other s"
proof (intro conjI impI)
  assume "length s \<le> 500"
  then show "create_summary_for_content self s = s"
    by (simp add: create_summary_for_content_def)
next
  assume long: "500 < length s"
  then show eq: "create_summary_for_content self s
        = take 200 s @ summarized_notice @ drop (length s - 200) s"
    by (simp add: create_summary_for_content_def slice_to_def slice_from_def)
  from long show "startswith (create_summary_for_content self s) (slice_to 200 s)"
    by (simp add: eq startswith_def slice_to_def)
  from long show "endswith (create_summary_for_content self s) (slice_from (- 200) s)"
    by (simp add: eq endswith_def slice_from_def)
  show "contains ''Content summarized'' (create_summary_for_content self s)"
    by (simp only: eq contains_summarized)
next
  show "create_summary_for_content self s = create_summary_for_content other s"
    by (simp add: create_summary_for_content_def)
qed

theorem create_summary_for_content_window_witness:
  "length ''Short content'' \<le> 500
   \<and> create_summary_for_content (ConversationManager 30 100 5 :: unit manager) ''Short content''
       = ''Short content''
   \<and> 500 < length (replicate 501 CHR ''A'')
   \<and> create_summary_for_content (ConversationManager 30 100 5 :: unit manager)
         (replicate 501 CHR ''A'')
       = replicate 200 CHR ''A'' @ summarized_notice @ replicate 200 CHR ''A''
   \<and> contains ''Content summarized''
        (create_summary_for_content (ConversationManager 30 100 5 :: unit manager)
           (replicate 501 CHR ''A''))"
  using create_summary_for_content_window
          [of "''Short content''" "ConversationManager 30 100 5 :: unit manager"
              "ConversationManager 30 100 5 :: unit manager"]
        create_summary_for_content_window
          [of "replicate 501 CHR ''A''" "ConversationManager 30 100 5 :: unit manager"
              "ConversationManager 30 100 5 :: unit manager"]
  by (simp add: contains_summarized)

section \<open>Read accessors\<close>

text \<open>
  C9: \<open>get_messages\<close> (in either mode) and \<open>get_conversation_stats\<close> leave the manager as
  it was, so \<open>messages\<close> and \<open>summary\<close> are unchanged and a second call returns what the
  first one did.
\<close>

theorem accessors_pure_read:
  "snd (get_messages self summary_mode) = self
   \<and> fst (get_messages (snd (get_messages self summary_mode)) summary_mode)
       = fst (get_messages self summary_mode)
   \<and> snd (get_conversation_stats self) = self
   \<and> fst (get_conversation_stats (snd (get_conversation_stats self)))
       = fst (get_conversation_stats self)
   \<and> messages (snd (get_messages self summary_mode)) = messages self
   \<and> summary (snd (get_messages self summary_mode)) = summary self
   \<and> messages (snd (get_conversation_stats self)) = messages self
   \<and> summary (snd (get_conversation_stats self)) = summary self"
  by (simp add: get_messages_def get_conversation_stats_def Let_def)

theorem accessors_pure_read_witness:
  "get_messages
     \<lparr>max_messages = 2, max_content_length = 900000, preserve_recent = 1,
      messages = [human_message ''Message 2'' :: unit message],
      summary = Some ''User: Message 0''\<rparr> True
   = ([\<lparr>kind = SystemMessage,
        content = Text ''Conversation Summary:\<newline>User: Message 0'', name = None\<rparr>,
       human_message ''Message 2''],
      \<lparr>max_messages = 2, max_content_length = 900000, preserve_recent = 1,
       messages = [human_message ''Message 2''], summary = Some ''User: Message 0''\<rparr>)
   \<and> fst (get_messages (snd (get_messages
        \<lparr>max_messages = 2, max_content_length = 900000, preserve_recent = 1,
         messages = [human_message ''Message 2'' :: unit message],
         summary = Some ''User: Message 0''\<rparr> True)) True)
     = [\<lparr>kind = SystemMessage,
        content = Text ''Conversation Summary:\<newline>User: Message 0'', name = None\<rparr>,
       human_message ''Message 2'']"
  using accessors_pure_read [of "\<lparr>max_messages = 2, max_content_length = 900000, preserve_recent = 1,
      messages = [human_message ''Message 2'' :: unit message],
      summary = Some ''User: Message 0''\<rparr>" True]
  by (simp add: get_messages_def truthy_def)

section \<open>The fold\<close>

lemma create_summary_noop:
  "int (length (messages self)) \<le> preserve_recent self \<Longrightarrow> create_summary fmt self = Inr self"
  by (simp add: create_summary_def)

lemma create_summary_Inr:
  assumes "create_summary fmt self = Inr self'"
  shows "max_messages self' = max_messages self
         \<and> max_content_length self' = max_content_length self
         \<and> preserve_recent self' = preserve_recent self
         \<and> (messages self' = messages self
              \<or> messages self' = slice_from (- preserve_recent self) (messages self))"
  using assms
  by (auto simp: create_summary_def Let_def split: if_splits sum.splits)

lemma create_summary_length:
  assumes "create_summary fmt self = Inr self'" "1 \<le> preserve_recent self"
  shows "int (length (messages self')) \<le> preserve_recent self"
  using assms
  by (auto simp: create_summary_def Let_def slice_from_def split: if_splits sum.splits)

lemma create_summary_last:
  assumes "create_summary fmt self = Inr self'" "1 \<le> preserve_recent self" "messages self \<noteq> []"
  shows "messages self' \<noteq> [] \<and> last (messages self') = last (messages self)"
  using assms
  by (auto simp: create_summary_def Let_def slice_from_def split: if_splits sum.splits)

lemma create_summary_subset:
  assumes "create_summary fmt self = Inr self'"
  shows "set (messages self') \<subseteq> set (messages self)"
  using assms
  by (auto simp: create_summary_def Let_def slice_from_def split: if_splits sum.splits dest: in_set_dropD)

lemma create_summary_snoc:
  assumes "1 \<le> preserve_recent self" "messages self = xs @ [x]"
    "create_summary fmt self = Inr self'"
  shows "\<exists>k. messages self' = drop k xs @ [x]"
proof (cases "int (length (messages self)) \<le> preserve_recent self")
  case True
  with assms(3) have "self' = self" by (simp add: create_summary_def)
  with assms(2) have "messages self' = drop 0 xs @ [x]" by simp
  then show ?thesis ..
next
  case False
  with assms(3) have "messages self' = slice_from (- preserve_recent self) (messages self)"
    by (auto simp: create_summary_def Let_def split: sum.splits)
  with assms(1,2) have "messages self'
      = drop (Suc (length xs) - nat (preserve_recent self)) (xs @ [x])"
    by (simp add: slice_from_def)
  moreover from assms(1) have "Suc (length xs) - nat (preserve_recent self) \<le> length xs"
    by linarith
  ultimately have "messages self'
      = drop (Suc (length xs) - nat (preserve_recent self)) xs @ [x]" by simp
  then show ?thesis ..
qed

lemma create_summary_drop:
  assumes "create_summary fmt self = Inr self'"
  shows "\<exists>k. messages self' = drop k (messages self)"
proof (cases "int (length (messages self)) \<le> preserve_recent self")
  case True
  with assms have "messages self' = drop 0 (messages self)" by (simp add: create_summary_def)
  then show ?thesis ..
next
  case False
  with assms have "messages self' = slice_from (- preserve_recent self) (messages self)"
    by (auto simp: create_summary_def Let_def split: sum.splits)
  then show ?thesis by (auto simp: slice_from_def)
qed

lemma summarize_loop_no_lines:
  "\<forall>m\<in>set xs. kind m = SystemMessage \<or> kind m = OtherMessage \<Longrightarrow>
   summarize_loop fmt parts xs = Inr parts"
  by (induction xs) (auto simp: summary_line_def)

lemma summarize_loop_filter_other:
  "summarize_loop fmt parts (filter (\<lambda>m. kind m \<noteq> OtherMessage) xs)
   = summarize_loop fmt parts xs"
  by (induction xs arbitrary: parts) (auto simp: summary_line_def split: sum.splits option.splits)

lemma summarize_loop_text:
  "\<forall>m\<in>set xs. \<exists>s. content m = Text s \<Longrightarrow> \<exists>ps. summarize_loop fmt parts xs = Inr ps"
proof (induction xs arbitrary: parts)
  case Nil
  then show ?case by simp
next
  case (Cons m xs)
  from Cons.prems obtain s where "content m = Text s" by auto
  then have "\<exists>l. summary_line fmt m = Inr l"
    by (simp add: summary_line_def excerpt_def Let_def)
  then obtain l where l: "summary_line fmt m = Inr l" ..
  from Cons.prems have rest: "\<forall>m\<in>set xs. \<exists>s. content m = Text s" by simp
  from Cons.IH [OF rest] l show ?case by (cases l) simp_all
qed

lemma create_summary_text_returns:
  assumes "\<forall>m\<in>set (messages self). \<exists>s. content m = Text s"
  shows "\<exists>self'. create_summary fmt self = Inr self'"
proof (cases "int (length (messages self)) \<le> preserve_recent self")
  case True
  then show ?thesis by (simp add: create_summary_def)
next
  case False
  have "set (slice_to (- preserve_recent self) (messages self)) \<subseteq> set (messages self)"
    by (auto simp: slice_to_def dest: in_set_takeD)
  with assms have "\<forall>m\<in>set (slice_to (- preserve_recent self) (messages self)).
      \<exists>s. content m = Text s" by blast
  from summarize_loop_text [OF this] obtain ps where
    "summarize_loop fmt (if truthy (summary self)
               then [''Previous conversation summary: '' @ the (summary self)] else [])
       (slice_to (- preserve_recent self) (messages self)) = Inr ps" by blast
  with False show ?thesis by (simp add: create_summary_def Let_def)
qed

text \<open>
  C2, as stated, fails: with a non-empty previous summary the fold starts its lines with
  "Previous conversation summary: ..." before it looks at any message, so a folded portion
  of System messages only leaves a non-null summary.
\<close>

theorem fold_system_only_counterexample:
  "create_summary (\<lambda>bs::unit list. [])
     \<lparr>max_messages = 30, max_content_length = 900000, preserve_recent = 1,
      messages = [system_message ''a'', system_message ''b''], summary = Some ''old''\<rparr>
   = Inr \<lparr>max_messages = 30, max_content_length = 900000, preserve_recent = 1,
          messages = [system_message ''b''],
          summary = Some ''Previous conversation summary: old''\<rparr>
   \<and> Some ''Previous conversation summary: old'' \<noteq> None"
  by (simp add: run_simps)

text \<open>
  C2 (amended): when the folded portion holds System messages only and the previous
  summary is the string \<open>old\<close>, the fold sets the summary to
  "Previous conversation summary: " followed by \<open>old\<close> if \<open>old\<close> is not empty, and to
  \<^verbatim>\<open>None\<close> only if \<open>old\<close> is the empty string; the window becomes the kept portion.
\<close>

theorem fold_system_only_summary:
  assumes "preserve_recent self < int (length (messages self))"
    "\<forall>m\<in>set (slice_to (- preserve_recent self) (messages self)). kind m = SystemMessage"
    "summary self = Some old"
  shows "create_summary fmt self
         = Inr (self\<lparr>summary := (if old = [] then None
                                  else Some (''Previous conversation summary: '' @ old)),
                     messages := slice_from (- preserve_recent self) (messages self)\<rparr>)"
proof -
  from assms(2) have "\<And>parts. summarize_loop fmt parts
      (slice_to (- preserve_recent self) (messages self)) = Inr parts"
    by (simp add: summarize_loop_no_lines)
  with assms(1,3) show ?thesis
    by (simp add: create_summary_def Let_def truthy_def)
qed

theorem fold_system_only_summary_witness:
  "(1::int) < int (length [system_message ''a'', system_message ''b'' :: unit message])
   \<and> create_summary (\<lambda>bs::unit list. [])
     \<lparr>max_messages = 30, max_content_length = 900000, preserve_recent = 1,
      messages = [system_message ''a'', system_message ''b''], summary = Some ''seen''\<rparr>
   = Inr \<lparr>max_messages = 30, max_content_length = 900000, preserve_recent = 1,
          messages = [system_message ''b''],
          summary = Some ''Previous conversation summary: seen''\<rparr>
   \<and> create_summary (\<lambda>bs::unit list. [])
     \<lparr>max_messages = 30, max_content_length = 900000, preserve_recent = 1,
      messages = [system_message ''a'', system_message ''b''], summary = Some []\<rparr>
   = Inr \<lparr>max_messages = 30, max_content_length = 900000, preserve_recent = 1,
          messages = [system_message ''b''],
          summary = None\<rparr>"
  using fold_system_only_summary
          [of "\<lparr>max_messages = 30, max_content_length = 900000, preserve_recent = 1,
                messages = [system_message ''a'', system_message ''b'' :: unit message],
                summary = Some ''seen''\<rparr>"
              "''seen''" "\<lambda>bs::unit list. []"]
        fold_system_only_summary
          [of "\<lparr>max_messages = 30, max_content_length = 900000, preserve_recent = 1,
                messages = [system_message ''a'', system_message ''b'' :: unit message],
                summary = Some []\<rparr>"
              "[]" "\<lambda>bs::unit list. []"]
  by (simp add: slice_to_def slice_from_def system_message_def)

text \<open>
  C10: a message of the folded portion that is neither a System, Human nor Assistant
  message yields no line, and the fold computes its result from the other messages of
  the folded portion alone; the window becomes the kept portion, so the message is gone.
\<close>

theorem fold_discards_other:
  assumes "preserve_recent self < int (length (messages self))"
  shows "(\<forall>m\<in>set (slice_to (- preserve_recent self) (messages self)).
            kind m = OtherMessage \<longrightarrow> summary_line fmt m = Inr None)
         \<and> create_summary fmt self
           = (case summarize_loop fmt
                     (if truthy (summary self)
                      then [''Previous conversation summary: '' @ the (summary self)] else [])
                     (filter (\<lambda>m. kind m \<noteq> OtherMessage)
                        (slice_to (- preserve_recent self) (messages self))) of
                Inl e \<Rightarrow> Inl e
              | Inr parts \<Rightarrow>
                  Inr (self\<lparr>summary := (if parts \<noteq> [] then Some (join ''\<newline>'' parts) else None),
                            messages := slice_from (- preserve_recent self) (messages self)\<rparr>))"
  using assms
  by (simp add: create_summary_def Let_def summarize_loop_filter_other summary_line_def)

theorem fold_discards_other_witness:
  "(1::int) < int (length [\<lparr>kind = OtherMessage, content = Text ''tool output'', name = None\<rparr>,
                  human_message ''question'', human_message ''next'' :: unit message])
   \<and> summary_line (\<lambda>bs::unit list. [])
        \<lparr>kind = OtherMessage, content = Text ''tool output'', name = None\<rparr> = Inr None
   \<and> create_summary (\<lambda>bs::unit list. [])
       \<lparr>max_messages = 30, max_content_length = 900000, preserve_recent = 1,
        messages = [\<lparr>kind = OtherMessage, content = Text ''tool output'', name = None\<rparr>,
                    human_message ''question'', human_message ''next''],
        summary = None\<rparr>
     = Inr \<lparr>max_messages = 30, max_content_length = 900000, preserve_recent = 1,
            messages = [human_message ''next''], summary = Some ''User: question''\<rparr>"
  using fold_discards_other [of "\<lparr>max_messages = 30, max_content_length = 900000, preserve_recent = 1,
        messages = [\<lparr>kind = OtherMessage, content = Text ''tool output'', name = None\<rparr>,
                    human_message ''question'', human_message ''next'' :: unit message],
        summary = None\<rparr>" "\<lambda>bs::unit list. []"]
  by (simp add: slice_to_def slice_from_def human_message_def truthy_def summary_line_def
        excerpt_def)

text \<open>
  C8 asks for the line of an Assistant message without a display name to start with
  "Assistant: ". The code reads the name with \<^verbatim>\<open>getattr(msg, 'name', 'Assistant')\<close>, which
  finds the attribute holding \<^verbatim>\<open>None\<close>, so the line starts with "None: ". Here:
  \<open>preserve_recent = 1\<close>, \<^verbatim>\<open>AIMessage(content="hi")\<close> then \<^verbatim>\<open>HumanMessage(content="ok")\<close>.
\<close>

theorem fold_unnamed_assistant_line:
  "add_messages fmt (ConversationManager 30 900000 1) [ai_message ''hi'', human_message ''ok'']
   = Inr \<lparr>max_messages = 30, max_content_length = 900000, preserve_recent = 1,
          messages = [human_message ''ok''], summary = Some ''None: hi''\<rparr>
   \<and> \<not> startswith ''None: hi'' ''Assistant: ''"
  by (simp add: run_simps startswith_def)

section \<open>Adding a message\<close>

lemma add_message_steps:
  "add_message fmt self message =
     (case (if int (length (messages self)) \<ge> max_messages self
            then create_summary fmt self else Inr self) of
        Inl e \<Rightarrow> Inl e
      | Inr self1 \<Rightarrow>
          if int (length (messages self1)) + 1 > preserve_recent self1
          then create_summary fmt (self1\<lparr>messages := messages self1 @ [ingested self message]\<rparr>)
          else Inr (self1\<lparr>messages := messages self1 @ [ingested self message]\<rparr>))"
  by (simp add: add_message_def ingested_def Let_def split: sum.splits content_value.splits)

lemma add_message_Inr:
  assumes "add_message fmt self message = Inr self'"
  shows "\<exists>self1. (self1 = self \<or> create_summary fmt self = Inr self1)
           \<and> (self' = self1\<lparr>messages := messages self1 @ [ingested self message]\<rparr>
                \<and> int (length (messages self')) \<le> preserve_recent self'
              \<or> create_summary fmt (self1\<lparr>messages := messages self1 @ [ingested self message]\<rparr>)
                  = Inr self')"
  using assms unfolding add_message_steps
  by (auto split: sum.splits if_splits)

lemma ingested_bound:
  assumes "500 \<le> max_content_length self" "kind message \<noteq> OtherMessage"
    "content message = Text s"
  shows "\<exists>t. content (ingested self message) = Text t
             \<and> int (length t) \<le> max_content_length self"
    and "kind (ingested self message) = kind message"
proof -
  show "kind (ingested self message) = kind message"
    using assms(2,3) by (cases "kind message") (simp_all add: ingested_def)
  show "\<exists>t. content (ingested self message) = Text t
             \<and> int (length t) \<le> max_content_length self"
  proof (cases "int (length s) > max_content_length self")
    case False
    with assms(3) show ?thesis by (simp add: ingested_def)
  next
    case True
    with assms(1) have long: "500 < length s" by linarith
    then have "length (create_summary_for_content self s) = 428"
      by (simp add: create_summary_for_content_def slice_to_def slice_from_def
            length_summarized_notice)
    with assms True show ?thesis
      by (cases "kind message") (simp_all add: ingested_def)
  qed
qed

lemma ingested_text: "content message = Text s \<Longrightarrow> \<exists>t. content (ingested self message) = Text t"
  by (simp add: ingested_def)

lemma add_message_text_returns:
  assumes "\<forall>m\<in>set (messages self). \<exists>s. content m = Text s" "content message = Text s"
  shows "\<exists>self'. add_message fmt self message = Inr self'"
proof -
  have "\<exists>self1. (if int (length (messages self)) \<ge> max_messages self
            then create_summary fmt self else Inr self) = Inr self1
          \<and> (\<forall>m\<in>set (messages self1). \<exists>s. content m = Text s)"
    using create_summary_text_returns [OF assms(1), of fmt] create_summary_subset [of fmt self]
      assms(1) by (cases "int (length (messages self)) \<ge> max_messages self") (auto, blast)
  then obtain self1 where s1: "(if int (length (messages self)) \<ge> max_messages self
            then create_summary fmt self else Inr self) = Inr self1"
    and t1: "\<forall>m\<in>set (messages self1). \<exists>s. content m = Text s" by blast
  from t1 ingested_text [OF assms(2), of self]
  have "\<forall>m\<in>set (messages (self1\<lparr>messages := messages self1 @ [ingested self message]\<rparr>)).
          \<exists>s. content m = Text s" by auto
  from create_summary_text_returns [OF this, of fmt] s1 show ?thesis
    by (simp add: add_message_steps)
qed

text \<open>
  C4: with \<open>preserve_recent \<ge> 1\<close>, whenever \<open>add_message\<close> returns, the window holds
  at most \<open>preserve_recent\<close> messages (and \<open>preserve_recent\<close> itself is unchanged).
\<close>

theorem add_message_window_bound:
  assumes "1 \<le> preserve_recent self" "add_message fmt self message = Inr self'"
  shows "int (length (messages self')) \<le> preserve_recent self'
         \<and> preserve_recent self' = preserve_recent self"
proof -
  from add_message_Inr [OF assms(2)] obtain self1 where
    s1: "self1 = self \<or> create_summary fmt self = Inr self1"
    and fin: "self' = self1\<lparr>messages := messages self1 @ [ingested self message]\<rparr>
                \<and> int (length (messages self')) \<le> preserve_recent self'
              \<or> create_summary fmt (self1\<lparr>messages := messages self1 @ [ingested self message]\<rparr>)
                  = Inr self'"
    by blast
  from s1 have p1: "preserve_recent self1 = preserve_recent self"
    using create_summary_Inr [of fmt self self1] by auto
  from fin show ?thesis
  proof
    assume "self' = self1\<lparr>messages := messages self1 @ [ingested self message]\<rparr>
                \<and> int (length (messages self')) \<le> preserve_recent self'"
    with p1 show ?thesis by auto
  next
    assume cs: "create_summary fmt (self1\<lparr>messages := messages self1 @ [ingested self message]\<rparr>)
                  = Inr self'"
    from create_summary_length [OF cs] create_summary_Inr [OF cs] assms(1) p1
    show ?thesis by simp
  qed
qed

theorem add_message_window_bound_witness:
  "(1::int) \<le> 2
   \<and> add_message (\<lambda>bs::unit list. [])
        \<lparr>max_messages = 3, max_content_length = 900000, preserve_recent = 2,
         messages = [\<lparr>kind = HumanMessage, content = Text ''Message 0'', name = None\<rparr>,
                     \<lparr>kind = HumanMessage, content = Text ''Message 1'', name = None\<rparr>],
         summary = None\<rparr>
        \<lparr>kind = HumanMessage, content = Text ''Message 2'', name = None\<rparr>
      = Inr \<lparr>max_messages = 3, max_content_length = 900000, preserve_recent = 2,
         messages = [\<lparr>kind = HumanMessage, content = Text ''Message 1'', name = None\<rparr>,
                     \<lparr>kind = HumanMessage, content = Text ''Message 2'', name = None\<rparr>],
         summary = Some ''User: Message 0''\<rparr>
   \<and> int (length [\<lparr>kind = HumanMessage, content = Text ''Message 1'', name = None\<rparr>,
                     \<lparr>kind = HumanMessage, content = Text ''Message 2'', name = (None::string option)\<rparr>]) \<le> 2"
proof -
  have run: "add_message (\<lambda>bs::unit list. [])
        \<lparr>max_messages = 3, max_content_length = 900000, preserve_recent = 2,
         messages = [\<lparr>kind = HumanMessage, content = Text ''Message 0'', name = None\<rparr>,
                     \<lparr>kind = HumanMessage, content = Text ''Message 1'', name = None\<rparr>],
         summary = None\<rparr>
        \<lparr>kind = HumanMessage, content = Text ''Message 2'', name = None\<rparr>
      = Inr \<lparr>max_messages = 3, max_content_length = 900000, preserve_recent = 2,
         messages = [\<lparr>kind = HumanMessage, content = Text ''Message 1'', name = None\<rparr>,
                     \<lparr>kind = HumanMessage, content = Text ''Message 2'', name = None\<rparr>],
         summary = Some ''User: Message 0''\<rparr>"
    by (simp add: add_message_def create_summary_def Let_def slice_to_def slice_from_def
          summary_line_def excerpt_def truthy_def)
  have p: "(1::int) \<le> preserve_recent \<lparr>max_messages = 3, max_content_length = 900000, preserve_recent = 2,
         messages = [\<lparr>kind = HumanMessage, content = Text ''Message 0'', name = None\<rparr>,
                     \<lparr>kind = HumanMessage, content = Text ''Message 1'', name = None\<rparr>],
         summary = None\<rparr>" by simp
  from add_message_window_bound [OF p run] run show ?thesis by simp
qed

lemma add_message_window:
  assumes "1 \<le> preserve_recent self" "add_message fmt self message = Inr self'"
  shows "\<exists>k. messages self' = drop k (messages self) @ [ingested self message]"
    and "max_content_length self' = max_content_length self"
proof -
  from add_message_Inr [OF assms(2)] obtain self1 where
    s1: "self1 = self \<or> create_summary fmt self = Inr self1"
    and fin: "self' = self1\<lparr>messages := messages self1 @ [ingested self message]\<rparr>
                \<and> int (length (messages self')) \<le> preserve_recent self'
              \<or> create_summary fmt (self1\<lparr>messages := messages self1 @ [ingested self message]\<rparr>)
                  = Inr self'"
    by blast
  from s1 have f1: "preserve_recent self1 = preserve_recent self"
      "max_content_length self1 = max_content_length self"
    using create_summary_Inr [of fmt self self1] by auto
  from s1 obtain j where j: "messages self1 = drop j (messages self)"
    using create_summary_drop [of fmt self self1] by (metis drop_0)
  from fin have "(\<exists>k. messages self' = drop k (messages self1) @ [ingested self message])
                 \<and> max_content_length self' = max_content_length self"
  proof
    assume "self' = self1\<lparr>messages := messages self1 @ [ingested self message]\<rparr>
                \<and> int (length (messages self')) \<le> preserve_recent self'"
    then have "messages self' = drop 0 (messages self1) @ [ingested self message]"
      "max_content_length self' = max_content_length self" using f1 by auto
    then show ?thesis by blast
  next
    assume cs: "create_summary fmt (self1\<lparr>messages := messages self1 @ [ingested self message]\<rparr>)
                  = Inr self'"
    have "\<exists>k. messages self' = drop k (messages self1) @ [ingested self message]"
      by (rule create_summary_snoc [OF _ _ cs]) (simp_all add: f1 assms(1))
    with create_summary_Inr [OF cs] f1 show ?thesis by simp
  qed
  then obtain k where "messages self' = drop k (messages self1) @ [ingested self message]"
    and mcl: "max_content_length self' = max_content_length self" by blast
  with j have "messages self' = drop (k + j) (messages self) @ [ingested self message]"
    by simp
  then show "\<exists>k. messages self' = drop k (messages self) @ [ingested self message]" ..
  from mcl show "max_content_length self' = max_content_length self" .
qed

lemma ingested_as_is:
  "kind message = OtherMessage \<Longrightarrow> ingested self message = message"
  "content message = Blocks bs \<Longrightarrow> ingested self message = message"
  "content message = Text s \<Longrightarrow> int (length s) \<le> max_content_length self \<Longrightarrow>
     ingested self message = message"
  by (simp_all add: ingested_def split: content_value.splits)

lemma ingested_replaced:
  assumes "content message = Text s" "max_content_length self < int (length s)"
    "kind message \<noteq> OtherMessage"
  shows "ingested self message
         = \<lparr>kind = kind message, content = Text (create_summary_for_content self s),
            name = (if kind message = SystemMessage then None else name message)\<rparr>"
  using assms by (cases "kind message") (simp_all add: ingested_def getattr_name_def)

text \<open>
  C1, as stated, fails: a message that is neither an Assistant, Human nor System message
  is stored as it is, whatever its length; and the summarized payload has 428 characters,
  also when \<open>max_content_length\<close> is smaller.
\<close>

theorem add_message_bound_counterexample:
  "add_message (\<lambda>bs::unit list. []) (ConversationManager 30 500 5)
     \<lparr>kind = OtherMessage, content = Text (replicate 501 CHR ''X''), name = None\<rparr>
   = Inr \<lparr>max_messages = 30, max_content_length = 500, preserve_recent = 5,
          messages = [\<lparr>kind = OtherMessage, content = Text (replicate 501 CHR ''X''),
                       name = None\<rparr>],
          summary = None\<rparr>
   \<and> \<not> int (length (replicate 501 CHR ''X'')) \<le> 500
   \<and> add_message (\<lambda>bs::unit list. []) (ConversationManager 30 100 5)
       (human_message (replicate 600 CHR ''X''))
     = Inr \<lparr>max_messages = 30, max_content_length = 100, preserve_recent = 5,
          messages = [human_message
             (replicate 200 CHR ''X'' @ summarized_notice @ replicate 200 CHR ''X'')],
          summary = None\<rparr>
   \<and> \<not> int (length (replicate 200 CHR ''X'' @ summarized_notice @ replicate 200 CHR ''X''))
         \<le> 100"
  by (simp add: add_message_def ConversationManager_def Let_def human_message_def
        create_summary_for_content_def slice_to_def slice_from_def getattr_name_def
        length_summarized_notice)

text \<open>
  C1 (amended): with \<open>preserve_recent \<ge> 1\<close>, when \<open>add_message\<close> returns, the window is a
  suffix of the messages stored before, followed by the incoming message as stored. A
  message of another variant, one whose payload is not a string, and one whose string
  payload has at most \<open>max_content_length\<close> characters are stored as they are. A System,
  Human or Assistant message with a longer string payload is stored as a new message of
  the same variant whose payload is the ingest-time summarization of the original, with
  the display name kept for Human and Assistant and dropped for System. With
  \<open>max_content_length \<ge> 500\<close>, the stored payload of a System, Human or Assistant message
  with a string payload has at most \<open>max_content_length\<close> characters.
\<close>

theorem add_message_bound_amended:
  assumes "1 \<le> preserve_recent self" "add_message fmt self message = Inr self'"
  shows "(\<exists>k. messages self' = drop k (messages self) @ [last (messages self')])
         \<and> max_content_length self' = max_content_length self
         \<and> (kind message = OtherMessage \<longrightarrow> last (messages self') = message)
         \<and> (\<forall>bs. content message = Blocks bs \<longrightarrow> last (messages self') = message)
         \<and> (\<forall>s. content message = Text s \<and> int (length s) \<le> max_content_length self
                \<longrightarrow> last (messages self') = message)
         \<and> (\<forall>s. content message = Text s \<and> max_content_length self < int (length s)
                  \<and> kind message \<noteq> OtherMessage
                \<longrightarrow> last (messages self')
                    = \<lparr>kind = kind message,
                       content = Text (create_summary_for_content self s),
                       name = (if kind message = SystemMessage then None
                               else name message)\<rparr>)
         \<and> (\<forall>s. content message = Text s \<and> kind message \<noteq> OtherMessage
                  \<and> 500 \<le> max_content_length self
                \<longrightarrow> (\<exists>t. content (last (messages self')) = Text t
                         \<and> int (length t) \<le> max_content_length self'))"
proof -
  from add_message_window [OF assms] obtain k where
    w: "messages self' = drop k (messages self) @ [ingested self message]"
    and mcl: "max_content_length self' = max_content_length self" by blast
  from w have l: "last (messages self') = ingested self message" by simp
  have "\<exists>k. messages self' = drop k (messages self) @ [last (messages self')]"
    using w l by auto
  moreover have "kind message = OtherMessage \<longrightarrow> last (messages self') = message"
    by (simp add: l ingested_as_is)
  moreover have "\<forall>bs. content message = Blocks bs \<longrightarrow> last (messages self') = message"
    by (simp add: l ingested_as_is)
  moreover have "\<forall>s. content message = Text s \<and> int (length s) \<le> max_content_length self
                \<longrightarrow> last (messages self') = message"
    by (simp add: l ingested_as_is)
  moreover have "\<forall>s. content message = Text s \<and> max_content_length self < int (length s)
                  \<and> kind message \<noteq> OtherMessage
                \<longrightarrow> last (messages self')
                    = \<lparr>kind = kind message,
                       content = Text (create_summary_for_content self s),
                       name = (if kind message = SystemMessage then None
                               else name message)\<rparr>"
    using ingested_replaced [of message _ self] by (simp add: l)
  moreover have "\<forall>s. content message = Text s \<and> kind message \<noteq> OtherMessage
                  \<and> 500 \<le> max_content_length self
                \<longrightarrow> (\<exists>t. content (last (messages self')) = Text t
                         \<and> int (length t) \<le> max_content_length self')"
    using ingested_bound(1) [of self message] by (simp add: l mcl)
  ultimately show ?thesis using mcl by blast
qed

theorem add_message_bound_amended_witness:
  "(1::int) \<le> 5
   \<and> add_message (\<lambda>bs::unit list. []) (ConversationManager 30 500 5)
       (human_message (replicate 501 CHR ''X''))
     = Inr \<lparr>max_messages = 30, max_content_length = 500, preserve_recent = 5,
          messages = [human_message
             (replicate 200 CHR ''X'' @ summarized_notice @ replicate 200 CHR ''X'')],
          summary = None\<rparr>
   \<and> (\<exists>t. content (last [human_message
             (replicate 200 CHR ''X'' @ summarized_notice @ replicate 200 CHR ''X'')
             :: unit message]) = Text t
          \<and> int (length t) \<le> 500)
   \<and> add_message (\<lambda>bs::unit list. []) (ConversationManager 30 500 5)
       \<lparr>kind = OtherMessage, content = Text (replicate 501 CHR ''X''), name = Some ''tool''\<rparr>
     = Inr \<lparr>max_messages = 30, max_content_length = 500, preserve_recent = 5,
          messages = [\<lparr>kind = OtherMessage, content = Text (replicate 501 CHR ''X''),
                       name = Some ''tool''\<rparr>],
          summary = None\<rparr>
   \<and> add_message (\<lambda>bs::unit list. []) (ConversationManager 30 500 5)
       (human_message ''Hello, world!'')
     = Inr \<lparr>max_messages = 30, max_content_length = 500, preserve_recent = 5,
          messages = [human_message ''Hello, world!''], summary = None\<rparr>"
proof -
  let ?M = "ConversationManager 30 500 5 :: unit manager"
  let ?f = "\<lambda>bs::unit list. ([]::string)"
  have run1: "add_message ?f ?M (human_message (replicate 501 CHR ''X''))
     = Inr \<lparr>max_messages = 30, max_content_length = 500, preserve_recent = 5,
          messages = [human_message
             (replicate 200 CHR ''X'' @ summarized_notice @ replicate 200 CHR ''X'')],
          summary = None\<rparr>"
    by (simp add: add_message_def ConversationManager_def Let_def human_message_def
        create_summary_for_content_def slice_to_def slice_from_def getattr_name_def)
  have run2: "add_message ?f ?M
       \<lparr>kind = OtherMessage, content = Text (replicate 501 CHR ''X''), name = Some ''tool''\<rparr>
     = Inr \<lparr>max_messages = 30, max_content_length = 500, preserve_recent = 5,
          messages = [\<lparr>kind = OtherMessage, content = Text (replicate 501 CHR ''X''),
                       name = Some ''tool''\<rparr>],
          summary = None\<rparr>"
    by (simp add: add_message_def ConversationManager_def Let_def)
  have run3: "add_message ?f ?M (human_message ''Hello, world!'')
     = Inr \<lparr>max_messages = 30, max_content_length = 500, preserve_recent = 5,
          messages = [human_message ''Hello, world!''], summary = None\<rparr>"
    by (simp add: add_message_def ConversationManager_def Let_def human_message_def)
  have p: "1 \<le> preserve_recent ?M" by (simp add: ConversationManager_def)
  from add_message_bound_amended [OF p run1] add_message_bound_amended [OF p run2] add_message_bound_amended [OF p run3] run1 run2 run3
  show ?thesis
    by (simp add: ConversationManager_def human_message_def create_summary_for_content_def
          slice_to_def slice_from_def length_summarized_notice)
qed

text \<open>
  C3 (scenario C) expects a stored payload shorter than 200 characters that contains
  "Content summarized". The code hands the 200 characters to
  \<open>create_summary_for_content\<close>, which returns up to 500 characters unchanged, so the
  payload is stored as it came.
\<close>

theorem add_message_scenario_C_unchanged:
  "add_message fmt (ConversationManager MAX_MESSAGES_BEFORE_SUMMARY 100 SUMMARY_PRESERVE_RECENT)
     (human_message (replicate 200 CHR ''X''))
   = Inr \<lparr>max_messages = 30, max_content_length = 100, preserve_recent = 5,
          messages = [human_message (replicate 200 CHR ''X'')], summary = None\<rparr>
   \<and> \<not> length (replicate 200 CHR ''X'') < 200
   \<and> \<not> contains ''Content summarized'' (replicate 200 CHR ''X'')"
proof -
  have "\<not> contains ''Content summarized'' (replicate 200 CHR ''X'')"
  proof
    assume "contains ''Content summarized'' (replicate 200 CHR ''X'')"
    from contains_set [OF this] show False by simp
  qed
  then show ?thesis
    by (simp add: add_message_def ConversationManager_def Let_def human_message_def
        create_summary_for_content_def getattr_name_def MAX_MESSAGES_BEFORE_SUMMARY_def
        SUMMARY_PRESERVE_RECENT_def)
qed

text \<open>
  C5 (scenario A), as stated, fails for "Message 0": \<open>max_messages = 3\<close>,
  \<open>preserve_recent = 2\<close>, five Human messages "Message 0" to "Message 4". Each fold puts
  the previous summary behind "Previous conversation summary: ", so after three folds
  the line that holds "Message 0" does not start with "User: ", and neither of the two
  lines that do holds "Message 0".
\<close>

theorem scenario_A_counterexample:
  "add_messages (\<lambda>bs::unit list. []) (ConversationManager 3 900000 2)
     [human_message ''Message 0'', human_message ''Message 1'', human_message ''Message 2'',
      human_message ''Message 3'', human_message ''Message 4'']
   = Inr \<lparr>max_messages = 3, max_content_length = 900000, preserve_recent = 2,
          messages = [human_message ''Message 3'', human_message ''Message 4''],
          summary = Some (''Previous conversation summary: Previous conversation summary: ''
                          @ ''User: Message 0\<newline>User: Message 1\<newline>User: Message 2'')\<rparr>
   \<and> split_lines (''Previous conversation summary: Previous conversation summary: ''
                   @ ''User: Message 0\<newline>User: Message 1\<newline>User: Message 2'')
     = [''Previous conversation summary: Previous conversation summary: User: Message 0'',
        ''User: Message 1'', ''User: Message 2'']
   \<and> \<not> startswith
          ''Previous conversation summary: Previous conversation summary: User: Message 0''
          ''User: ''
   \<and> \<not> contains ''Message 0'' ''User: Message 1''
   \<and> \<not> contains ''Message 0'' ''User: Message 2''"
  by (simp add: run_simps startswith_def)

text \<open>
  C5 (amended): the window ends as "Message 3", "Message 4"; the summary is not
  \<^verbatim>\<open>None\<close> and has exactly three lines: "User: Message 0" behind two
  "Previous conversation summary: " prefixes, then "User: Message 1" and
  "User: Message 2".
\<close>

theorem scenario_A_final_state:
  "add_messages fmt (ConversationManager 3 MAX_CONTENT_LENGTH 2)
     [human_message ''Message 0'', human_message ''Message 1'', human_message ''Message 2'',
      human_message ''Message 3'', human_message ''Message 4'']
   = Inr \<lparr>max_messages = 3, max_content_length = 900000, preserve_recent = 2,
          messages = [human_message ''Message 3'', human_message ''Message 4''],
          summary = Some (''Previous conversation summary: Previous conversation summary: ''
                          @ ''User: Message 0\<newline>User: Message 1\<newline>User: Message 2'')\<rparr>
   \<and> split_lines (''Previous conversation summary: Previous conversation summary: ''
                   @ ''User: Message 0\<newline>User: Message 1\<newline>User: Message 2'')
     = [''Previous conversation summary: Previous conversation summary: User: Message 0'',
        ''User: Message 1'', ''User: Message 2'']"
  by (simp add: run_simps MAX_CONTENT_LENGTH_def)

end
